theory Spec2Isabelle
  imports Main "HOL-Library.Word"
begin

section \<open>The ITS dissector template: shared types\<close>

text \<open>
  The development follows \<^verbatim>\<open>epan/dissectors/asn1/its/packet-its-template.c\<close>.
  C's \<^verbatim>\<open>guint32\<close> is a 32-bit word: addition and left shift wrap around.
\<close>

type_synonym guint32 = "32 word"

text \<open>
  \<^verbatim>\<open>its_private_data_t\<close>, the per-packet scratch state. The field \<open>type\<close> has the C type
  \<^verbatim>\<open>enum regext_type_enum\<close>; it is kept as the 32-bit value that the cast
  \<^verbatim>\<open>(guint32) re->type\<close> reads.
\<close>

record its_private_data =
  type :: guint32
  region_id :: guint32
  cause_code :: guint32

section \<open>Cause code and sub-cause code\<close>

text \<open>
  The enumerators of \<^verbatim>\<open>CauseCodeType_enum\<close> that the template names. The enumeration itself
  is declared in the generated header \<^verbatim>\<open>packet-its.h\<close>; the integer value of each
  enumerator is therefore a parameter \<open>ev\<close> of the lookup below, and a cause code as the
  lookup receives it is any 32-bit value.
\<close>

datatype CauseCodeType_enum =
    reserved
  | trafficCondition
  | accident
  | roadworks
  | adverseWeatherCondition_Adhesion
  | hazardousLocation_SurfaceCondition
  | hazardousLocation_ObstacleOnTheRoad
  | hazardousLocation_AnimalOnTheRoad
  | humanPresenceOnTheRoad
  | wrongWayDriving
  | rescueAndRecoveryWorkInProgress
  | adverseWeatherCondition_ExtremeWeatherCondition
  | adverseWeatherCondition_Visibility
  | adverseWeatherCondition_Precipitation
  | slowVehicle
  | dangerousEndOfQueue
  | vehicleBreakdown
  | postCrash
  | humanProblem
  | stationaryVehicle
  | emergencyVehicleApproaching
  | hazardousLocation_DangerousCurve
  | collisionRisk
  | signalViolation
  | dangerousSituation

text \<open>
  The header-field variables whose addresses the table stores. Each is a distinct static
  \<^verbatim>\<open>int\<close>, so a pointer to one is identified by the variable's name; \<^verbatim>\<open>NULL\<close> is \<open>None\<close>.
  \<open>hf_its_subCauseCode\<close> is the generic field of the generated \<^verbatim>\<open>packet-its-hf.c\<close>.
\<close>

datatype hf_var =
    hf_its_subCauseCode
  | hf_its_trafficConditionSubCauseCode
  | hf_its_accidentSubCauseCode
  | hf_its_roadworksSubCauseCode
  | hf_its_adverseWeatherCondition_PrecipitationSubCauseCode
  | hf_its_adverseWeatherCondition_VisibilitySubCauseCode
  | hf_its_adverseWeatherCondition_AdhesionSubCauseCode
  | hf_its_adverseWeatherCondition_ExtremeWeatherConditionSubCauseCode
  | hf_its_hazardousLocation_AnimalOnTheRoadSubCauseCode
  | hf_its_hazardousLocation_ObstacleOnTheRoadSubCauseCode
  | hf_its_hazardousLocation_SurfaceConditionSubCauseCode
  | hf_its_hazardousLocation_DangerousCurveSubCauseCode
  | hf_its_humanPresenceOnTheRoadSubCauseCode
  | hf_its_wrongWayDrivingSubCauseCode
  | hf_its_rescueAndRecoveryWorkInProgressSubCauseCode
  | hf_its_slowVehicleSubCauseCode
  | hf_its_dangerousEndOfQueueSubCauseCode
  | hf_its_vehicleBreakdownSubCauseCode
  | hf_its_postCrashSubCauseCode
  | hf_its_humanProblemSubCauseCode
  | hf_its_stationaryVehicleSubCauseCode
  | hf_its_emergencyVehicleApproachingSubCauseCode
  | hf_its_collisionRiskSubCauseCode
  | hf_its_signalViolationSubCauseCode
  | hf_its_dangerousSituationSubCauseCode

record cause_entry =
  cause :: CauseCodeType_enum
  hf :: "hf_var option"

definition cause_to_subcause :: "cause_entry list" where
  "cause_to_subcause =
   [ \<lparr>cause = trafficCondition, hf = Some hf_its_trafficConditionSubCauseCode\<rparr>,
     \<lparr>cause = accident, hf = Some hf_its_accidentSubCauseCode\<rparr>,
     \<lparr>cause = roadworks, hf = Some hf_its_roadworksSubCauseCode\<rparr>,
     \<lparr>cause = adverseWeatherCondition_Precipitation,
      hf = Some hf_its_adverseWeatherCondition_PrecipitationSubCauseCode\<rparr>,
     \<lparr>cause = adverseWeatherCondition_Visibility,
      hf = Some hf_its_adverseWeatherCondition_VisibilitySubCauseCode\<rparr>,
     \<lparr>cause = adverseWeatherCondition_Adhesion,
      hf = Some hf_its_adverseWeatherCondition_AdhesionSubCauseCode\<rparr>,
     \<lparr>cause = adverseWeatherCondition_ExtremeWeatherCondition,
      hf = Some hf_its_adverseWeatherCondition_ExtremeWeatherConditionSubCauseCode\<rparr>,
     \<lparr>cause = hazardousLocation_AnimalOnTheRoad,
      hf = Some hf_its_hazardousLocation_AnimalOnTheRoadSubCauseCode\<rparr>,
     \<lparr>cause = hazardousLocation_ObstacleOnTheRoad,
      hf = Some hf_its_hazardousLocation_ObstacleOnTheRoadSubCauseCode\<rparr>,
     \<lparr>cause = hazardousLocation_SurfaceCondition,
      hf = Some hf_its_hazardousLocation_SurfaceConditionSubCauseCode\<rparr>,
     \<lparr>cause = hazardousLocation_DangerousCurve,
      hf = Some hf_its_hazardousLocation_DangerousCurveSubCauseCode\<rparr>,
     \<lparr>cause = humanPresenceOnTheRoad, hf = Some hf_its_humanPresenceOnTheRoadSubCauseCode\<rparr>,
     \<lparr>cause = wrongWayDriving, hf = Some hf_its_wrongWayDrivingSubCauseCode\<rparr>,
     \<lparr>cause = rescueAndRecoveryWorkInProgress,
      hf = Some hf_its_rescueAndRecoveryWorkInProgressSubCauseCode\<rparr>,
     \<lparr>cause = slowVehicle, hf = Some hf_its_slowVehicleSubCauseCode\<rparr>,
     \<lparr>cause = dangerousEndOfQueue, hf = Some hf_its_dangerousEndOfQueueSubCauseCode\<rparr>,
     \<lparr>cause = vehicleBreakdown, hf = Some hf_its_vehicleBreakdownSubCauseCode\<rparr>,
     \<lparr>cause = postCrash, hf = Some hf_its_postCrashSubCauseCode\<rparr>,
     \<lparr>cause = humanProblem, hf = Some hf_its_humanProblemSubCauseCode\<rparr>,
     \<lparr>cause = stationaryVehicle, hf = Some hf_its_stationaryVehicleSubCauseCode\<rparr>,
     \<lparr>cause = emergencyVehicleApproaching,
      hf = Some hf_its_emergencyVehicleApproachingSubCauseCode\<rparr>,
     \<lparr>cause = collisionRisk, hf = Some hf_its_collisionRiskSubCauseCode\<rparr>,
     \<lparr>cause = signalViolation, hf = Some hf_its_signalViolationSubCauseCode\<rparr>,
     \<lparr>cause = dangerousSituation, hf = Some hf_its_dangerousSituationSubCauseCode\<rparr>,
     \<lparr>cause = reserved, hf = None\<rparr> ]"

text \<open>
  The \<^verbatim>\<open>while\<close> loop of \<^verbatim>\<open>find_subcause_from_cause\<close>. The list argument is the part of the
  array from \<^verbatim>\<open>idx\<close> on: the loop steps over an entry whose \<^verbatim>\<open>hf\<close> is set and whose cause
  differs from the one sought, and stops at the first other entry. Reading past the last
  entry of the array is \<open>None\<close>.
\<close>

fun subcause_scan ::
  "(CauseCodeType_enum \<Rightarrow> guint32) \<Rightarrow> guint32 \<Rightarrow> cause_entry list \<Rightarrow> cause_entry option" where
  "subcause_scan ev c [] = None"
| "subcause_scan ev c (e # rest) =
     (if hf e \<noteq> None \<and> ev (cause e) \<noteq> c then subcause_scan ev c rest else Some e)"

text \<open>
  \<^verbatim>\<open>find_subcause_from_cause\<close>: the entry the loop stops at gives the result, its \<^verbatim>\<open>hf\<close> when
  set and \<^verbatim>\<open>&hf_its_subCauseCode\<close> otherwise.
\<close>

definition find_subcause_from_cause ::
  "(CauseCodeType_enum \<Rightarrow> guint32) \<Rightarrow> guint32 \<Rightarrow> hf_var option" where
  "find_subcause_from_cause ev c =
     (case subcause_scan ev c cause_to_subcause of
        None \<Rightarrow> None
      | Some e \<Rightarrow> Some (case hf e of Some h \<Rightarrow> h | None \<Rightarrow> hf_its_subCauseCode))"

text \<open>The enumerators to which the table gives a vocabulary of their own.\<close>

definition known_causes :: "CauseCodeType_enum list" where
  "known_causes = map cause (filter (\<lambda>e. hf e \<noteq> None) cause_to_subcause)"

text \<open>
  A sample valuation of the enumerators, the numbers of the \<^verbatim>\<open>CauseCodeType\<close> of
  ETSI TS 102 894-2; it instantiates the parameter \<open>ev\<close> in the examples.
\<close>

fun etsi_cause_value :: "CauseCodeType_enum \<Rightarrow> guint32" where
  "etsi_cause_value reserved = 0"
| "etsi_cause_value trafficCondition = 1"
| "etsi_cause_value accident = 2"
| "etsi_cause_value roadworks = 3"
| "etsi_cause_value adverseWeatherCondition_Adhesion = 6"
| "etsi_cause_value hazardousLocation_SurfaceCondition = 9"
| "etsi_cause_value hazardousLocation_ObstacleOnTheRoad = 10"
| "etsi_cause_value hazardousLocation_AnimalOnTheRoad = 11"
| "etsi_cause_value humanPresenceOnTheRoad = 12"
| "etsi_cause_value wrongWayDriving = 14"
| "etsi_cause_value rescueAndRecoveryWorkInProgress = 15"
| "etsi_cause_value adverseWeatherCondition_ExtremeWeatherCondition = 17"
| "etsi_cause_value adverseWeatherCondition_Visibility = 18"
| "etsi_cause_value adverseWeatherCondition_Precipitation = 19"
| "etsi_cause_value slowVehicle = 26"
| "etsi_cause_value dangerousEndOfQueue = 27"
| "etsi_cause_value vehicleBreakdown = 91"
| "etsi_cause_value postCrash = 92"
| "etsi_cause_value humanProblem = 93"
| "etsi_cause_value stationaryVehicle = 94"
| "etsi_cause_value emergencyVehicleApproaching = 95"
| "etsi_cause_value hazardousLocation_DangerousCurve = 96"
| "etsi_cause_value collisionRisk = 97"
| "etsi_cause_value signalViolation = 98"
| "etsi_cause_value dangerousSituation = 99"

section \<open>Dissector tables and handles\<close>

text \<open>
  The dissector functions and protocols that the template binds. A handle made by
  \<^verbatim>\<open>create_dissector_handle\<close> is the pair of the two.
\<close>

datatype dissector =
    dissect_denm_DecentralizedEnvironmentalNotificationMessage_PDU
  | dissect_cam_CoopAwareness_PDU
  | dissect_dsrc_SPAT_PDU
  | dissect_dsrc_MapData_PDU
  | dissect_ivi_IviStructure_PDU
  | dissect_evrsr_EV_RSR_MessageBody_PDU
  | dissect_dsrc_SignalRequestMessage_PDU
  | dissect_dsrc_SignalStatusMessage_PDU
  | dissect_evcsn_EVChargingSpotNotificationPOIMessage_PDU
  | dissect_tistpg_TisTpgTransaction_PDU
  | dissect_AddGrpC_ConnectionManeuverAssist_addGrpC_PDU
  | dissect_AddGrpC_ConnectionTrajectory_addGrpC_PDU
  | dissect_AddGrpC_Control_addGrpC_PDU
  | dissect_AddGrpC_IntersectionState_addGrpC_PDU
  | dissect_AddGrpC_MapData_addGrpC_PDU
  | dissect_AddGrpC_Position3D_addGrpC_PDU
  | dissect_AddGrpC_RestrictionUserType_addGrpC_PDU
  | dissect_AddGrpC_SignalStatusPackage_addGrpC_PDU

datatype protocol =
    proto_its
  | proto_its_denm
  | proto_its_cam
  | proto_its_evcsn
  | proto_its_evrsr
  | proto_its_ivim
  | proto_its_tistpg
  | proto_its_ssem
  | proto_its_srem
  | proto_its_mapem
  | proto_its_spatem
  | proto_addgrpc

type_synonym dissector_handle = "dissector \<times> protocol"

definition create_dissector_handle :: "dissector \<Rightarrow> protocol \<Rightarrow> dissector_handle" where
  "create_dissector_handle d p = (d, p)"

text \<open>A dissector table of type \<^verbatim>\<open>FT_UINT32\<close>: a finite map from patterns to handles.\<close>

type_synonym dissector_table = "guint32 \<rightharpoonup> dissector_handle"

text \<open>
  Modelled from the spec: \<^verbatim>\<open>tvbuff_t\<close> belongs to the packet framework, which is not
  among the sources. The spec speaks of a contiguous byte span: a buffer is the list of
  its captured bytes.
\<close>

type_synonym tvbuff = "8 word list"

text \<open>
  Modelled from the spec: \<^verbatim>\<open>tvb_captured_length\<close>, a framework function not among the
  sources, is the number of bytes of the span.
\<close>

definition tvb_captured_length :: "tvbuff \<Rightarrow> int" where
  "tvb_captured_length tvb = int (length tvb)"

text \<open>
  What a dissection leaves behind: the calls it made to sub-dissectors and to the column
  and tree primitives, in order. A sub-dissector either returns the number of bytes it
  took (\<open>0\<close> when it rejects the data) or raises the decoder's fault; its behaviour is the
  parameter \<open>run\<close> of the functions below.
\<close>

datatype event =
    Col_set_str_protocol string
  | Col_clear_info
  | Proto_tree_add_item protocol
  | Proto_item_add_subtree
  | Call_dissector dissector_handle tvbuff
  | Call_data_dissector tvbuff

datatype dissect_error = Decode_fault

type_synonym dissect_result = "event list \<times> (dissect_error + int)"

type_synonym sub_dissectors = "dissector_handle \<Rightarrow> tvbuff \<Rightarrow> dissect_error + int"

text \<open>
  Modelled from the spec: \<^verbatim>\<open>dissector_add_uint\<close> is the framework's \<open>register\<close>, not among
  the sources. Registering a key that is already bound fails at startup (\<open>None\<close>).
\<close>

definition dissector_add_uint ::
  "guint32 \<Rightarrow> dissector_handle \<Rightarrow> dissector_table \<Rightarrow> dissector_table option" where
  "dissector_add_uint pattern handle tbl =
     (case tbl pattern of
        None \<Rightarrow> Some (tbl(pattern \<mapsto> handle))
      | Some _ \<Rightarrow> None)"

text \<open>A run of \<^verbatim>\<open>dissector_add_uint\<close> calls on one table, in the order of the source.\<close>

fun dissector_add_uints ::
  "(guint32 \<times> dissector_handle) list \<Rightarrow> dissector_table \<Rightarrow> dissector_table option" where
  "dissector_add_uints [] tbl = Some tbl"
| "dissector_add_uints ((pattern, handle) # rest) tbl =
     (case dissector_add_uint pattern handle tbl of
        None \<Rightarrow> None
      | Some tbl' \<Rightarrow> dissector_add_uints rest tbl')"

text \<open>
  Modelled from the spec: \<^verbatim>\<open>dissector_try_uint_new\<close> is a framework function, not among
  the sources. It looks the key up and, when a handler is bound to it, runs the handler
  and hands its return value back; with no handler it returns \<open>0\<close>.
\<close>

definition dissector_try_uint_new ::
  "sub_dissectors \<Rightarrow> dissector_table \<Rightarrow> guint32 \<Rightarrow> tvbuff \<Rightarrow> dissect_result" where
  "dissector_try_uint_new run tbl uint_val tvb =
     (case tbl uint_val of
        None \<Rightarrow> ([], Inr 0)
      | Some handle \<Rightarrow> ([Call_dissector handle tvb], run handle tvb))"

text \<open>
  Modelled from the spec: \<^verbatim>\<open>call_data_dissector\<close> is a framework function, not among the
  sources. It renders the bytes as an opaque blob and takes them all.
\<close>

definition call_data_dissector :: "tvbuff \<Rightarrow> dissect_result" where
  "call_data_dissector tvb = ([Call_data_dissector tvb], Inr (tvb_captured_length tvb))"

section \<open>Regional extensions\<close>

text \<open>
  The key of a regional extension, the expression
  \<^verbatim>\<open>((guint32) re->region_id<<16) + (guint32) re->type\<close> of \<^verbatim>\<open>dissect_regextval_pdu\<close> and
  \<^verbatim>\<open>(addGrpC<<16)+Reg_...\<close> of \<^verbatim>\<open>proto_reg_handoff_its\<close>, in 32-bit unsigned arithmetic.
\<close>

definition regionid_key :: "guint32 \<Rightarrow> guint32 \<Rightarrow> guint32" where
  "regionid_key region t = push_bit 16 region + t"

text \<open>
  \<^verbatim>\<open>dissect_regextval_pdu\<close>. The table \<^verbatim>\<open>regionid_subdissector_table\<close> is the argument
  \<open>tbl\<close>, the private data behind \<^verbatim>\<open>data\<close> the argument \<open>re\<close>. The data dissector runs
  when \<^verbatim>\<open>dissector_try_uint_new\<close> returns \<open>0\<close>; the function then returns the captured
  length. A fault raised by the handler leaves the function before it returns.
\<close>

definition dissect_regextval_pdu ::
  "sub_dissectors \<Rightarrow> dissector_table \<Rightarrow> its_private_data \<Rightarrow> tvbuff \<Rightarrow> dissect_result" where
  "dissect_regextval_pdu run tbl re tvb =
     (case dissector_try_uint_new run tbl (regionid_key (region_id re) (type re)) tvb of
        (evs, Inl e) \<Rightarrow> (evs, Inl e)
      | (evs, Inr r) \<Rightarrow>
          (if r = 0
           then (evs @ fst (call_data_dissector tvb), Inr (tvb_captured_length tvb))
           else (evs, Inr (tvb_captured_length tvb))))"

text \<open>
  The enumerators of \<^verbatim>\<open>enum regext_type_enum\<close> that the template names. The enumeration and
  the region identifier \<^verbatim>\<open>addGrpC\<close> are declared in generated code; their values are the
  parameters \<open>rv\<close> and \<open>addGrpC\<close>.
\<close>

datatype regext_type_enum =
    Reg_ConnectionManeuverAssist
  | Reg_GenericLane
  | Reg_NodeAttributeSetXY
  | Reg_IntersectionState
  | Reg_MapData
  | Reg_Position3D
  | Reg_RestrictionUserType
  | Reg_SignalStatusPackage

text \<open>The eight \<^verbatim>\<open>"dsrc.regionid"\<close> registrations of \<^verbatim>\<open>proto_reg_handoff_its\<close>, in order.\<close>

definition regionid_registrations ::
  "guint32 \<Rightarrow> (regext_type_enum \<Rightarrow> guint32) \<Rightarrow> (guint32 \<times> dissector_handle) list" where
  "regionid_registrations addGrpC rv =
   [ (regionid_key addGrpC (rv Reg_ConnectionManeuverAssist),
      create_dissector_handle dissect_AddGrpC_ConnectionManeuverAssist_addGrpC_PDU proto_addgrpc),
     (regionid_key addGrpC (rv Reg_GenericLane),
      create_dissector_handle dissect_AddGrpC_ConnectionTrajectory_addGrpC_PDU proto_addgrpc),
     (regionid_key addGrpC (rv Reg_NodeAttributeSetXY),
      create_dissector_handle dissect_AddGrpC_Control_addGrpC_PDU proto_addgrpc),
     (regionid_key addGrpC (rv Reg_IntersectionState),
      create_dissector_handle dissect_AddGrpC_IntersectionState_addGrpC_PDU proto_addgrpc),
     (regionid_key addGrpC (rv Reg_MapData),
      create_dissector_handle dissect_AddGrpC_MapData_addGrpC_PDU proto_addgrpc),
     (regionid_key addGrpC (rv Reg_Position3D),
      create_dissector_handle dissect_AddGrpC_Position3D_addGrpC_PDU proto_addgrpc),
     (regionid_key addGrpC (rv Reg_RestrictionUserType),
      create_dissector_handle dissect_AddGrpC_RestrictionUserType_addGrpC_PDU proto_addgrpc),
     (regionid_key addGrpC (rv Reg_SignalStatusPackage),
      create_dissector_handle dissect_AddGrpC_SignalStatusPackage_addGrpC_PDU proto_addgrpc) ]"

text \<open>
  The table \<^verbatim>\<open>"dsrc.regionid"\<close> after \<^verbatim>\<open>proto_reg_handoff_its\<close>; \<^verbatim>\<open>proto_register_its\<close>
  created it empty.
\<close>

definition regionid_subdissector_table ::
  "guint32 \<Rightarrow> (regext_type_enum \<Rightarrow> guint32) \<Rightarrow> dissector_table option" where
  "regionid_subdissector_table addGrpC rv =
     dissector_add_uints (regionid_registrations addGrpC rv) Map.empty"

text \<open>A sample valuation of the enumerators, for the examples.\<close>

fun sample_regext_value :: "regext_type_enum \<Rightarrow> guint32" where
  "sample_regext_value Reg_ConnectionManeuverAssist = 2"
| "sample_regext_value Reg_GenericLane = 3"
| "sample_regext_value Reg_IntersectionState = 5"
| "sample_regext_value Reg_MapData = 8"
| "sample_regext_value Reg_NodeAttributeSetXY = 11"
| "sample_regext_value Reg_Position3D = 13"
| "sample_regext_value Reg_RestrictionUserType = 16"
| "sample_regext_value Reg_SignalStatusPackage = 24"

section \<open>Message identifiers and the top-level dissector\<close>

text \<open>
  The message identifiers that \<^verbatim>\<open>proto_reg_handoff_its\<close> registers. Their numbers are
  declared in the generated header; they are the parameter \<open>mid\<close>.
\<close>

datatype its_msgid =
    ITS_DENM
  | ITS_CAM
  | ITS_SPATEM
  | ITS_MAPEM
  | ITS_IVIM
  | ITS_EV_RSR
  | ITS_SREM
  | ITS_SSEM
  | ITS_EVCSN
  | ITS_TISTPGTRANSACTION

text \<open>The ten \<^verbatim>\<open>"its.msg_id"\<close> registrations of \<^verbatim>\<open>proto_reg_handoff_its\<close>, in order.\<close>

definition its_msgid_registrations ::
  "(its_msgid \<Rightarrow> guint32) \<Rightarrow> (guint32 \<times> dissector_handle) list" where
  "its_msgid_registrations mid =
   [ (mid ITS_DENM,
      create_dissector_handle dissect_denm_DecentralizedEnvironmentalNotificationMessage_PDU
        proto_its_denm),
     (mid ITS_CAM, create_dissector_handle dissect_cam_CoopAwareness_PDU proto_its_cam),
     (mid ITS_SPATEM, create_dissector_handle dissect_dsrc_SPAT_PDU proto_its_spatem),
     (mid ITS_MAPEM, create_dissector_handle dissect_dsrc_MapData_PDU proto_its_mapem),
     (mid ITS_IVIM, create_dissector_handle dissect_ivi_IviStructure_PDU proto_its_ivim),
     (mid ITS_EV_RSR,
      create_dissector_handle dissect_evrsr_EV_RSR_MessageBody_PDU proto_its_evrsr),
     (mid ITS_SREM,
      create_dissector_handle dissect_dsrc_SignalRequestMessage_PDU proto_its_srem),
     (mid ITS_SSEM,
      create_dissector_handle dissect_dsrc_SignalStatusMessage_PDU proto_its_ssem),
     (mid ITS_EVCSN,
      create_dissector_handle dissect_evcsn_EVChargingSpotNotificationPOIMessage_PDU
        proto_its_evcsn),
     (mid ITS_TISTPGTRANSACTION,
      create_dissector_handle dissect_tistpg_TisTpgTransaction_PDU proto_its_tistpg) ]"

definition its_msgid_subdissector_table ::
  "(its_msgid \<Rightarrow> guint32) \<Rightarrow> dissector_table option" where
  "its_msgid_subdissector_table mid =
     dissector_add_uints (its_msgid_registrations mid) Map.empty"

text \<open>A sample valuation, the \<^verbatim>\<open>messageID\<close> numbers of ETSI TS 102 894-2.\<close>

fun etsi_msgid_value :: "its_msgid \<Rightarrow> guint32" where
  "etsi_msgid_value ITS_DENM = 1"
| "etsi_msgid_value ITS_CAM = 2"
| "etsi_msgid_value ITS_SPATEM = 4"
| "etsi_msgid_value ITS_MAPEM = 5"
| "etsi_msgid_value ITS_IVIM = 6"
| "etsi_msgid_value ITS_EV_RSR = 7"
| "etsi_msgid_value ITS_TISTPGTRANSACTION = 8"
| "etsi_msgid_value ITS_SREM = 9"
| "etsi_msgid_value ITS_SSEM = 10"
| "etsi_msgid_value ITS_EVCSN = 11"

text \<open>
  Modelled from the spec: the Decode-As Override Store and the Message Registry behind the
  table \<^verbatim>\<open>"its.msg_id"\<close>. The template hands the table to \<^verbatim>\<open>register_decode_as\<close> with the
  framework's default change and reset functions, which are not among the sources. The
  store is a mutable association from message kinds to parsers, empty by default.
\<close>

record msgid_bindings =
  override_store :: dissector_table
  message_registry :: dissector_table

text \<open>
  Modelled from the spec: \<open>setOverride\<close> of the Override Store (the framework's change
  function, not among the sources); in memory, last write wins.
\<close>

definition setOverride :: "guint32 \<Rightarrow> dissector_handle \<Rightarrow> msgid_bindings \<Rightarrow> msgid_bindings" where
  "setOverride kind p st = st\<lparr>override_store := (override_store st)(kind \<mapsto> p)\<rparr>"

text \<open>
  Modelled from the spec: \<open>clearOverride\<close> of the Override Store (the framework's reset
  function, not among the sources).
\<close>

definition clearOverride :: "guint32 \<Rightarrow> msgid_bindings \<Rightarrow> msgid_bindings" where
  "clearOverride kind st = st\<lparr>override_store := (override_store st)(kind := None)\<rparr>"

text \<open>
  Modelled from the spec: \<open>get\<close> of the Override Store, which is not among the sources.
\<close>

definition get_override :: "msgid_bindings \<Rightarrow> guint32 \<Rightarrow> dissector_handle option" where
  "get_override st kind = override_store st kind"

text \<open>
  Modelled from the spec: step 2 of \<open>dispatch\<close>, the parser in effect for a message kind.
  The Override Store is looked up first and the Message Registry only when it has no entry.
\<close>

definition effective_parser :: "msgid_bindings \<Rightarrow> guint32 \<Rightarrow> dissector_handle option" where
  "effective_parser st kind =
     (case get_override st kind of
        Some p \<Rightarrow> Some p
      | None \<Rightarrow> message_registry st kind)"

text \<open>
  Modelled from the spec: \<open>dispatch\<close>, which stands for the generated
  \<^verbatim>\<open>dissect_its_ItsPduHeader_PDU\<close> (not among the sources). The external decoder \<open>dec\<close>
  reads the common header and yields the version, the message kind and the remaining
  bytes, or fails on a malformed header. A parser found is run on the remaining bytes and
  its result returned; with none found the remaining bytes are rendered as raw bytes.
\<close>

type_synonym header_decoder = "tvbuff \<Rightarrow> (guint32 \<times> guint32 \<times> tvbuff) option"

definition dispatch ::
  "header_decoder \<Rightarrow> sub_dissectors \<Rightarrow> msgid_bindings \<Rightarrow> tvbuff \<Rightarrow> dissect_result" where
  "dispatch dec run st tvb =
     (case dec tvb of
        None \<Rightarrow> ([], Inl Decode_fault)
      | Some (version, kind, rest) \<Rightarrow>
          (case effective_parser st kind of
             Some p \<Rightarrow> ([Call_dissector p rest], run p rest)
           | None \<Rightarrow> call_data_dissector rest))"

text \<open>
  \<^verbatim>\<open>dissect_its_PDU\<close>: the protocol column is set, the info column cleared, the ITS item
  added to the tree and given its subtree, and the header dissector called (\<open>dispatch\<close>
  stands for it); its result is the result.
\<close>

definition dissect_its_PDU ::
  "header_decoder \<Rightarrow> sub_dissectors \<Rightarrow> msgid_bindings \<Rightarrow> tvbuff \<Rightarrow> dissect_result" where
  "dissect_its_PDU dec run st tvb =
     (case dispatch dec run st tvb of
        (evs, r) \<Rightarrow>
          ([Col_set_str_protocol ''ITS'', Col_clear_info, Proto_tree_add_item proto_its,
            Proto_item_add_subtree] @ evs,
           r))"

text \<open>
  A sample header decoder and sample sub-dissectors for the examples: the first two bytes
  are the version and the message kind, and every sub-dissector takes all the bytes it is
  given.
\<close>

fun sample_header :: header_decoder where
  "sample_header (v # k # rest) = Some (ucast v, ucast k, rest)"
| "sample_header _ = None"

definition sample_run :: sub_dissectors where
  "sample_run h tvb = Inr (tvb_captured_length tvb)"

section \<open>Properties of the sub-cause lookup\<close>

lemma find_Some_mem: "List.find P xs = Some x \<Longrightarrow> x \<in> set xs"
  by (induction xs) (auto split: if_splits)

lemma find_Some_holds: "List.find P xs = Some x \<Longrightarrow> P x"
  by (induction xs) (auto split: if_splits)

text \<open>Over a stretch of entries that all have a vocabulary the loop is a search by cause.\<close>

lemma subcause_scan_append:
  "\<forall>e\<in>set ys. hf e \<noteq> None \<Longrightarrow>
   subcause_scan ev c (ys @ zs) =
     (case List.find (\<lambda>e. ev (cause e) = c) ys of
        Some e \<Rightarrow> Some e
      | None \<Rightarrow> subcause_scan ev c zs)"
  by (induction ys) auto

text \<open>The table is its entries with a vocabulary, followed by the terminating entry.\<close>

lemma cause_to_subcause_split:
  "cause_to_subcause =
     filter (\<lambda>e. hf e \<noteq> None) cause_to_subcause @ [\<lparr>cause = reserved, hf = None\<rparr>]"
  by (simp add: cause_to_subcause_def)

lemma find_subcause_from_cause_find:
  "find_subcause_from_cause ev c =
     Some (case List.find (\<lambda>e. ev (cause e) = c) (filter (\<lambda>e. hf e \<noteq> None) cause_to_subcause) of
             Some e \<Rightarrow> the (hf e)
           | None \<Rightarrow> hf_its_subCauseCode)"
proof -
  let ?ys = "filter (\<lambda>e. hf e \<noteq> None) cause_to_subcause"
  have all: "\<forall>e\<in>set ?ys. hf e \<noteq> None" by simp
  have "subcause_scan ev c cause_to_subcause =
          subcause_scan ev c (?ys @ [\<lparr>cause = reserved, hf = None\<rparr>])"
    using cause_to_subcause_split by simp
  also have "\<dots> = (case List.find (\<lambda>e. ev (cause e) = c) ?ys of
                      Some e \<Rightarrow> Some e
                    | None \<Rightarrow> Some \<lparr>cause = reserved, hf = None\<rparr>)"
    by (subst subcause_scan_append [OF all]) (simp split: option.splits)
  finally have scan: "subcause_scan ev c cause_to_subcause =
      (case List.find (\<lambda>e. ev (cause e) = c) ?ys of
         Some e \<Rightarrow> Some e
       | None \<Rightarrow> Some \<lparr>cause = reserved, hf = None\<rparr>)" .
  show ?thesis
  proof (cases "List.find (\<lambda>e. ev (cause e) = c) ?ys")
    case None
    then show ?thesis by (simp add: find_subcause_from_cause_def scan)
  next
    case (Some e)
    then have "e \<in> set ?ys" by (rule find_Some_mem)
    then obtain h where "hf e = Some h" by auto
    with Some show ?thesis by (simp add: find_subcause_from_cause_def scan)
  qed
qed

lemma known_hf_distinct:
  "distinct (map hf (filter (\<lambda>e. hf e \<noteq> None) cause_to_subcause))"
  by (simp add: cause_to_subcause_def)

lemma known_hf_not_generic:
  "Some hf_its_subCauseCode \<notin> hf ` set cause_to_subcause"
  by (simp add: cause_to_subcause_def)

lemma known_causes_24: "length known_causes = 24 \<and> distinct known_causes"
  by (simp add: known_causes_def cause_to_subcause_def)

lemma unknown_cause_generic:
  assumes "c \<notin> ev ` set known_causes"
  shows "find_subcause_from_cause ev c = Some hf_its_subCauseCode"
proof -
  have "List.find (\<lambda>e. ev (cause e) = c) (filter (\<lambda>e. hf e \<noteq> None) cause_to_subcause) = None"
    using assms by (auto simp: find_None_iff known_causes_def)
  then show ?thesis by (simp add: find_subcause_from_cause_find)
qed

lemma known_cause_found:
  assumes "c \<in> ev ` set known_causes"
  obtains x where
    "List.find (\<lambda>e. ev (cause e) = c) (filter (\<lambda>e. hf e \<noteq> None) cause_to_subcause) = Some x"
  using assms
  by (cases "List.find (\<lambda>e. ev (cause e) = c) (filter (\<lambda>e. hf e \<noteq> None) cause_to_subcause)")
     (auto simp: find_None_iff known_causes_def)

lemma known_entry_lookup:
  assumes d: "distinct (map ev known_causes)"
    and e: "e \<in> set cause_to_subcause" and h: "hf e = Some v"
  shows "find_subcause_from_cause ev (ev (cause e)) = Some v"
proof -
  let ?ys = "filter (\<lambda>e. hf e \<noteq> None) cause_to_subcause"
  let ?P = "\<lambda>x. ev (cause x) = ev (cause e)"
  have mem: "e \<in> set ?ys" using e h by simp
  have inj: "inj_on (\<lambda>x. ev (cause x)) (set ?ys)"
    using d by (simp add: known_causes_def distinct_map comp_def inj_on_def)
  obtain x where x: "List.find ?P ?ys = Some x"
    using mem by (cases "List.find ?P ?ys") (auto simp: find_None_iff)
  have "x \<in> set ?ys" and "ev (cause x) = ev (cause e)"
    using find_Some_mem [OF x] find_Some_holds [OF x] by simp_all
  with inj mem have "x = e" by (auto dest: inj_onD)
  with x h show ?thesis by (simp add: find_subcause_from_cause_find)
qed

lemma own_vocabulary_iff:
  "find_subcause_from_cause ev c \<noteq> Some hf_its_subCauseCode \<longleftrightarrow> c \<in> ev ` set known_causes"
proof
  assume "find_subcause_from_cause ev c \<noteq> Some hf_its_subCauseCode"
  then show "c \<in> ev ` set known_causes" using unknown_cause_generic by blast
next
  let ?ys = "filter (\<lambda>e. hf e \<noteq> None) cause_to_subcause"
  assume "c \<in> ev ` set known_causes"
  then obtain x where x: "List.find (\<lambda>e. ev (cause e) = c) ?ys = Some x"
    by (rule known_cause_found)
  have "x \<in> set ?ys" using find_Some_mem [OF x] .
  then obtain v where v: "hf x = Some v" and "x \<in> set cause_to_subcause" by auto
  then have "v \<noteq> hf_its_subCauseCode" using known_hf_not_generic by force
  with x v show "find_subcause_from_cause ev c \<noteq> Some hf_its_subCauseCode"
    by (simp add: find_subcause_from_cause_find)
qed

lemma own_vocabulary_distinct:
  assumes "c1 \<in> ev ` set known_causes" "c2 \<in> ev ` set known_causes" "c1 \<noteq> c2"
  shows "find_subcause_from_cause ev c1 \<noteq> find_subcause_from_cause ev c2"
proof -
  let ?ys = "filter (\<lambda>e. hf e \<noteq> None) cause_to_subcause"
  obtain x1 where x1: "List.find (\<lambda>e. ev (cause e) = c1) ?ys = Some x1"
    using assms(1) by (rule known_cause_found)
  obtain x2 where x2: "List.find (\<lambda>e. ev (cause e) = c2) ?ys = Some x2"
    using assms(2) by (rule known_cause_found)
  have m1: "x1 \<in> set ?ys" and m2: "x2 \<in> set ?ys"
    using find_Some_mem [OF x1] find_Some_mem [OF x2] .
  have "ev (cause x1) = c1" "ev (cause x2) = c2"
    using find_Some_holds [OF x1] find_Some_holds [OF x2] .
  with assms(3) have ne: "x1 \<noteq> x2" by auto
  have "inj_on hf (set ?ys)" using known_hf_distinct by (simp add: distinct_map)
  with m1 m2 ne have "hf x1 \<noteq> hf x2" by (auto dest: inj_onD)
  moreover obtain v1 v2 where "hf x1 = Some v1" "hf x2 = Some v2" using m1 m2 by auto
  ultimately show ?thesis using x1 x2 by (simp add: find_subcause_from_cause_find)
qed

lemma etsi_cause_values_distinct: "distinct (map etsi_cause_value known_causes)"
  by (simp add: known_causes_def cause_to_subcause_def)

text \<open>
  Claim C2. The lookup never reads past the table, and for every cause code that is not
  the value of one of the enumerators with a vocabulary in the table it returns the
  generic \<open>hf_its_subCauseCode\<close>. The value of \<open>reserved\<close>, a value outside the
  enumeration, and whatever value the private data holds when no cause code has been
  decoded are all cause codes \<open>c\<close> of this kind.
\<close>

theorem find_subcause_from_cause_fallback:
  "find_subcause_from_cause ev c \<noteq> None \<and>
   (c \<notin> ev ` set known_causes \<longrightarrow> find_subcause_from_cause ev c = Some hf_its_subCauseCode)"
  using unknown_cause_generic [of c ev] by (simp add: find_subcause_from_cause_find)

theorem find_subcause_from_cause_fallback_witness:
  "etsi_cause_value reserved \<notin> etsi_cause_value ` set known_causes \<and>
   find_subcause_from_cause etsi_cause_value (etsi_cause_value reserved) = Some hf_its_subCauseCode \<and>
   (200 :: guint32) \<notin> etsi_cause_value ` set known_causes \<and>
   find_subcause_from_cause etsi_cause_value 200 = Some hf_its_subCauseCode"
proof -
  have r: "etsi_cause_value reserved \<notin> etsi_cause_value ` set known_causes"
    by (simp add: known_causes_def cause_to_subcause_def)
  have o: "(200 :: guint32) \<notin> etsi_cause_value ` set known_causes"
    by (simp add: known_causes_def cause_to_subcause_def)
  show ?thesis
    using r o
      find_subcause_from_cause_fallback [of etsi_cause_value "etsi_cause_value reserved"]
      find_subcause_from_cause_fallback [of etsi_cause_value 200]
    by blast
qed

text \<open>
  Claim C3, amended. The table gives a vocabulary to 24 enumerators, not 23. The lookup
  returns a vocabulary other than the generic one exactly for the values of these 24;
  two different such values never get the same vocabulary; and when the 24 enumerators
  have different values, each gets the vocabulary of its own table entry.
\<close>

theorem find_subcause_from_cause_known:
  "length known_causes = 24 \<and> distinct known_causes \<and>
   (find_subcause_from_cause ev c \<noteq> Some hf_its_subCauseCode \<longleftrightarrow> c \<in> ev ` set known_causes) \<and>
   (c1 \<in> ev ` set known_causes \<longrightarrow> c2 \<in> ev ` set known_causes \<longrightarrow> c1 \<noteq> c2 \<longrightarrow>
      find_subcause_from_cause ev c1 \<noteq> find_subcause_from_cause ev c2) \<and>
   (distinct (map ev known_causes) \<longrightarrow> e \<in> set cause_to_subcause \<longrightarrow> hf e = Some v \<longrightarrow>
      find_subcause_from_cause ev (ev (cause e)) = Some v)"
  using known_causes_24 own_vocabulary_iff [of ev c] own_vocabulary_distinct [of c1 ev c2]
    known_entry_lookup [of ev e v]
  by blast

theorem find_subcause_from_cause_known_witness:
  "find_subcause_from_cause etsi_cause_value 3 \<noteq> Some hf_its_subCauseCode \<and>
   find_subcause_from_cause etsi_cause_value 3 \<noteq> find_subcause_from_cause etsi_cause_value 99 \<and>
   find_subcause_from_cause etsi_cause_value
     (etsi_cause_value (cause \<lparr>cause = roadworks, hf = Some hf_its_roadworksSubCauseCode\<rparr>)) =
     Some hf_its_roadworksSubCauseCode"
proof -
  have a: "(3 :: guint32) \<in> etsi_cause_value ` set known_causes"
    by (simp add: known_causes_def cause_to_subcause_def)
  have b: "(99 :: guint32) \<in> etsi_cause_value ` set known_causes"
    by (simp add: known_causes_def cause_to_subcause_def)
  have n: "(3 :: guint32) \<noteq> 99" by simp
  have m: "\<lparr>cause = roadworks, hf = Some hf_its_roadworksSubCauseCode\<rparr> \<in> set cause_to_subcause"
    by (simp add: cause_to_subcause_def)
  have h: "hf \<lparr>cause = roadworks, hf = Some hf_its_roadworksSubCauseCode\<rparr> =
             Some hf_its_roadworksSubCauseCode"
    by simp
  show ?thesis
    using a b n m h etsi_cause_values_distinct
      find_subcause_from_cause_known [of etsi_cause_value 3 3 99
        "\<lparr>cause = roadworks, hf = Some hf_its_roadworksSubCauseCode\<rparr>"
        hf_its_roadworksSubCauseCode]
    by blast
qed

text \<open>
  Claim C3 as stated fails: under the sample valuation the lookup returns 24 pairwise
  different vocabularies, none of them the generic one, for the 24 enumerators of the
  table, so the enumerators with a vocabulary of their own are not 23.
\<close>

theorem known_causes_not_23:
  "distinct (map (find_subcause_from_cause etsi_cause_value) (map etsi_cause_value known_causes)) \<and>
   Some hf_its_subCauseCode \<notin>
     set (map (find_subcause_from_cause etsi_cause_value) (map etsi_cause_value known_causes)) \<and>
   length known_causes \<noteq> 23"
  by (simp add: known_causes_def find_subcause_from_cause_def cause_to_subcause_def)

section \<open>Properties of the regional-extension resolver\<close>

text \<open>Below \<open>2 ^ 16\<close> on both sides the key does not wrap around.\<close>

lemma regionid_key_unat:
  assumes "unat r < 2 ^ 16" "unat t < 2 ^ 16"
  shows "unat (regionid_key r t) = unat r * 2 ^ 16 + unat t"
proof -
  have "unat r * unat (2 ^ 16 :: guint32) < 2 ^ LENGTH(32)"
    using assms(1) by simp
  then have "unat (r * 2 ^ 16) = unat r * unat (2 ^ 16 :: guint32)"
    by (simp only: unat_mult_lem)
  then have p: "unat (push_bit 16 r) = unat r * 2 ^ 16"
    by (simp add: push_bit_eq_mult)
  have "unat (push_bit 16 r) + unat t < 2 ^ LENGTH(32)"
    using assms p by simp
  then have "unat (push_bit 16 r + t) = unat (push_bit 16 r) + unat t"
    by (simp only: unat_add_lem)
  with p show ?thesis
    by (simp add: regionid_key_def)
qed

lemma regionid_key_inj:
  assumes "unat r1 < 2 ^ 16" "unat t1 < 2 ^ 16" "unat r2 < 2 ^ 16" "unat t2 < 2 ^ 16"
    and eq: "regionid_key r1 t1 = regionid_key r2 t2"
  shows "r1 = r2 \<and> t1 = t2"
proof -
  have e: "unat r1 * 2 ^ 16 + unat t1 = unat r2 * 2 ^ 16 + unat t2"
    using eq assms(1-4) regionid_key_unat by metis
  have "(unat r1 * 2 ^ 16 + unat t1) div 2 ^ 16 = unat r1" using assms(2) by simp
  moreover have "(unat r2 * 2 ^ 16 + unat t2) div 2 ^ 16 = unat r2" using assms(4) by simp
  ultimately have r: "unat r1 = unat r2" using e by simp
  with e have "unat t1 = unat t2" by simp
  with r show ?thesis by (simp add: word_unat_eq_iff)
qed

lemma regionid_key_same_region: "regionid_key a t1 = regionid_key a t2 \<longleftrightarrow> t1 = t2"
  by (simp add: regionid_key_def)

lemma regionid_keys_distinct:
  "inj rv \<Longrightarrow> distinct (map fst (regionid_registrations addGrpC rv))"
  by (simp add: regionid_registrations_def regionid_key_same_region inj_eq)

lemma dissector_add_uints_lookup:
  "distinct (map fst kvs) \<Longrightarrow> \<forall>k\<in>fst ` set kvs. tbl k = None \<Longrightarrow>
   \<exists>tbl'. dissector_add_uints kvs tbl = Some tbl' \<and>
          (\<forall>k. tbl' k = (case map_of kvs k of None \<Rightarrow> tbl k | Some h \<Rightarrow> Some h))"
proof (induction kvs arbitrary: tbl)
  case Nil
  then show ?case by simp
next
  case (Cons kv kvs)
  obtain k h where kv: "kv = (k, h)" by (cases kv)
  from Cons.prems kv have free: "tbl k = None" by simp
  have d: "distinct (map fst kvs)" and nk: "k \<notin> fst ` set kvs"
    using Cons.prems(1) kv by auto
  have "\<forall>k'\<in>fst ` set kvs. (tbl(k \<mapsto> h)) k' = None"
    using Cons.prems(2) nk by auto
  from Cons.IH [OF d this] obtain tbl' where
    t: "dissector_add_uints kvs (tbl(k \<mapsto> h)) = Some tbl'" and
    l: "\<forall>k'. tbl' k' = (case map_of kvs k' of None \<Rightarrow> (tbl(k \<mapsto> h)) k' | Some h' \<Rightarrow> Some h')"
    by blast
  have "map_of kvs k = None" using nk by (simp add: map_of_eq_None_iff)
  with l have "\<forall>k'. tbl' k' = (case map_of (kv # kvs) k' of None \<Rightarrow> tbl k' | Some h' \<Rightarrow> Some h')"
    by (auto simp: kv split: option.splits)
  with t free show ?case by (simp add: kv dissector_add_uint_def)
qed

lemma regionid_table_lookup:
  assumes "inj rv"
  shows "\<exists>tbl. regionid_subdissector_table addGrpC rv = Some tbl \<and>
              (\<forall>k. tbl k = map_of (regionid_registrations addGrpC rv) k)"
proof -
  from dissector_add_uints_lookup [OF regionid_keys_distinct [OF assms], of addGrpC Map.empty]
  obtain tbl where "dissector_add_uints (regionid_registrations addGrpC rv) Map.empty = Some tbl"
    and "\<forall>k. tbl k = (case map_of (regionid_registrations addGrpC rv) k of None \<Rightarrow> None | Some h \<Rightarrow> Some h)"
    by auto
  then show ?thesis
    by (auto simp: regionid_subdissector_table_def split: option.splits)
qed

lemma sample_regext_inj: "inj sample_regext_value"
proof (rule injI)
  fix x y assume "sample_regext_value x = sample_regext_value y"
  then show "x = y" by (cases x; cases y; simp)
qed


lemma sample_regext_small: "\<forall>x. unat (sample_regext_value x) < 2 ^ 16"
proof
  fix x show "unat (sample_regext_value x) < 2 ^ 16" by (cases x) simp_all
qed

lemma regionid_key_unat_mod:
  "unat (regionid_key r t) = (unat r * 2 ^ 16 + unat t) mod 2 ^ 32"
proof -
  have "unat (push_bit 16 r) = (unat r * 2 ^ 16) mod 2 ^ 32"
    by (simp add: push_bit_eq_mult unat_word_ariths)
  then show ?thesis
    by (simp add: regionid_key_def unat_word_ariths mod_add_left_eq)
qed

text \<open>The two courses of \<^verbatim>\<open>dissect_regextval_pdu\<close>: no handler under the key, or one.\<close>

lemma dissect_regextval_pdu_None:
  "tbl (regionid_key (region_id re) (type re)) = None \<Longrightarrow>
   dissect_regextval_pdu run tbl re tvb =
     ([Call_data_dissector tvb], Inr (tvb_captured_length tvb))"
  by (simp add: dissect_regextval_pdu_def dissector_try_uint_new_def call_data_dissector_def)

lemma dissect_regextval_pdu_Some:
  "tbl (regionid_key (region_id re) (type re)) = Some h \<Longrightarrow>
   dissect_regextval_pdu run tbl re tvb =
     (case run h tvb of
        Inl e \<Rightarrow> ([Call_dissector h tvb], Inl e)
      | Inr r \<Rightarrow> (if r = 0 then [Call_dissector h tvb, Call_data_dissector tvb]
                  else [Call_dissector h tvb],
                 Inr (tvb_captured_length tvb)))"
  by (simp add: dissect_regextval_pdu_def dissector_try_uint_new_def call_data_dissector_def
      split: sum.splits)

lemma intersection_state_registered:
  "inj rv \<Longrightarrow>
   map_of (regionid_registrations addGrpC rv) (regionid_key addGrpC (rv Reg_IntersectionState)) =
     Some (create_dissector_handle dissect_AddGrpC_IntersectionState_addGrpC_PDU proto_addgrpc)"
  by (simp add: regionid_registrations_def regionid_key_same_region inj_eq)

lemma registered_keys:
  "k \<in> fst ` set (regionid_registrations addGrpC rv) \<Longrightarrow> \<exists>x. k = regionid_key addGrpC (rv x)"
  by (auto simp: regionid_registrations_def)

lemma other_region_unregistered:
  assumes "r \<noteq> addGrpC" "unat r < 2 ^ 16" "unat addGrpC < 2 ^ 16" "\<forall>x. unat (rv x) < 2 ^ 16"
  shows "map_of (regionid_registrations addGrpC rv) (regionid_key r (rv y)) = None"
proof -
  have "regionid_key r (rv y) \<notin> fst ` set (regionid_registrations addGrpC rv)"
  proof
    assume "regionid_key r (rv y) \<in> fst ` set (regionid_registrations addGrpC rv)"
    then obtain x where "regionid_key r (rv y) = regionid_key addGrpC (rv x)"
      using registered_keys by blast
    then have "r = addGrpC" using regionid_key_inj assms(2-4) by blast
    with assms(1) show False by simp
  qed
  then show ?thesis by (simp add: map_of_eq_None_iff)
qed

text \<open>
  Claim C4. When the table has no handler under the key of the region identifier and
  extension kind, \<^verbatim>\<open>dissect_regextval_pdu\<close> calls the data dissector on the bytes, calls
  nothing else, and returns normally.
\<close>

theorem dissect_regextval_pdu_unregistered:
  "tbl (regionid_key (region_id re) (type re)) = None \<Longrightarrow>
   dissect_regextval_pdu run tbl re tvb =
     ([Call_data_dissector tvb], Inr (tvb_captured_length tvb))"
  by (rule dissect_regextval_pdu_None)

theorem dissect_regextval_pdu_unregistered_witness:
  "\<exists>tbl. regionid_subdissector_table 0 sample_regext_value = Some tbl \<and>
     tbl (regionid_key 1 5) = None \<and>
     dissect_regextval_pdu sample_run tbl \<lparr>type = 5, region_id = 1, cause_code = 0\<rparr> [1, 2, 3] =
       ([Call_data_dissector [1, 2, 3]], Inr 3)"
proof -
  obtain tbl where t: "regionid_subdissector_table 0 sample_regext_value = Some tbl"
    and l: "\<And>k. tbl k = map_of (regionid_registrations 0 sample_regext_value) k"
    using regionid_table_lookup [OF sample_regext_inj, of 0] by blast
  have n: "tbl (regionid_key 1 5) = None"
    by (simp add: l regionid_registrations_def regionid_key_def)
  have "dissect_regextval_pdu sample_run tbl \<lparr>type = 5, region_id = 1, cause_code = 0\<rparr> [1, 2, 3] =
       ([Call_data_dissector [1, 2, 3]], Inr (tvb_captured_length [1, 2, 3]))"
    using n dissect_regextval_pdu_unregistered
      [of tbl "\<lparr>type = 5, region_id = 1, cause_code = 0\<rparr>" sample_run "[1, 2, 3]"]
    by simp
  with t n show ?thesis by (simp add: tvb_captured_length_def)
qed

text \<open>
  Claim C6. After \<^verbatim>\<open>proto_reg_handoff_its\<close>, resolving with the region identifier
  \<^verbatim>\<open>addGrpC\<close> and the extension kind \<^verbatim>\<open>Reg_IntersectionState\<close> calls the handle of
  \<^verbatim>\<open>dissect_AddGrpC_IntersectionState_addGrpC_PDU\<close> first; the same extension kind under a
  region identifier for which the table has no registration ends in the data dissector
  alone, and every region identifier other than \<^verbatim>\<open>addGrpC\<close> is of that kind when the
  numbers involved are below \<open>2 ^ 16\<close>. The number of \<^verbatim>\<open>addGrpC\<close> is a parameter; the
  example takes \<open>0\<close> for it.
\<close>

theorem intersection_state_handler_invoked:
  assumes "inj rv"
  shows "\<exists>tbl. regionid_subdissector_table addGrpC rv = Some tbl \<and>
     (region_id re = addGrpC \<longrightarrow> type re = rv Reg_IntersectionState \<longrightarrow>
        (\<exists>rest. fst (dissect_regextval_pdu run tbl re tvb) =
           Call_dissector
             (create_dissector_handle dissect_AddGrpC_IntersectionState_addGrpC_PDU proto_addgrpc)
             tvb # rest)) \<and>
     (type re' = rv Reg_IntersectionState \<longrightarrow>
      tbl (regionid_key (region_id re') (type re')) = None \<longrightarrow>
        dissect_regextval_pdu run tbl re' tvb =
          ([Call_data_dissector tvb], Inr (tvb_captured_length tvb))) \<and>
     (r \<noteq> addGrpC \<longrightarrow> unat r < 2 ^ 16 \<longrightarrow> unat addGrpC < 2 ^ 16 \<longrightarrow>
      (\<forall>x. unat (rv x) < 2 ^ 16) \<longrightarrow>
        tbl (regionid_key r (rv Reg_IntersectionState)) = None)"
proof -
  obtain tbl where t: "regionid_subdissector_table addGrpC rv = Some tbl"
    and l: "\<And>k. tbl k = map_of (regionid_registrations addGrpC rv) k"
    using regionid_table_lookup [OF assms, of addGrpC] by blast
  let ?h = "create_dissector_handle dissect_AddGrpC_IntersectionState_addGrpC_PDU proto_addgrpc"
  have a: "\<exists>rest. fst (dissect_regextval_pdu run tbl re tvb) = Call_dissector ?h tvb # rest"
    if "region_id re = addGrpC" "type re = rv Reg_IntersectionState"
  proof -
    have "tbl (regionid_key (region_id re) (type re)) = Some ?h"
      using that l intersection_state_registered [OF assms] by simp
    then show ?thesis
      by (cases "run ?h tvb") (simp_all add: dissect_regextval_pdu_Some)
  qed
  have b: "dissect_regextval_pdu run tbl re' tvb =
          ([Call_data_dissector tvb], Inr (tvb_captured_length tvb))"
    if "tbl (regionid_key (region_id re') (type re')) = None"
    using that by (rule dissect_regextval_pdu_None)
  have c: "tbl (regionid_key r (rv Reg_IntersectionState)) = None"
    if "r \<noteq> addGrpC" "unat r < 2 ^ 16" "unat addGrpC < 2 ^ 16" "\<forall>x. unat (rv x) < 2 ^ 16"
    using that l other_region_unregistered [of r addGrpC rv Reg_IntersectionState] by simp
  show ?thesis
  proof (intro exI [of _ tbl] conjI impI)
    show "regionid_subdissector_table addGrpC rv = Some tbl" by (rule t)
  next
    assume "region_id re = addGrpC" "type re = rv Reg_IntersectionState"
    then show "\<exists>rest. fst (dissect_regextval_pdu run tbl re tvb) = Call_dissector ?h tvb # rest"
      by (rule a)
  next
    assume "tbl (regionid_key (region_id re') (type re')) = None"
    then show "dissect_regextval_pdu run tbl re' tvb =
          ([Call_data_dissector tvb], Inr (tvb_captured_length tvb))"
      by (rule b)
  next
    assume "r \<noteq> addGrpC" "unat r < 2 ^ 16" "unat addGrpC < 2 ^ 16" "\<forall>x. unat (rv x) < 2 ^ 16"
    then show "tbl (regionid_key r (rv Reg_IntersectionState)) = None"
      by (rule c)
  qed
qed

theorem intersection_state_handler_invoked_witness:
  "\<exists>tbl. regionid_subdissector_table 0 sample_regext_value = Some tbl \<and>
     (\<exists>rest. fst (dissect_regextval_pdu sample_run tbl
                    \<lparr>type = 5, region_id = 0, cause_code = 0\<rparr> [1, 2, 3]) =
        Call_dissector
          (create_dissector_handle dissect_AddGrpC_IntersectionState_addGrpC_PDU proto_addgrpc)
          [1, 2, 3] # rest) \<and>
     tbl (regionid_key 1 5) = None \<and>
     dissect_regextval_pdu sample_run tbl \<lparr>type = 5, region_id = 1, cause_code = 0\<rparr> [1, 2, 3] =
       ([Call_data_dissector [1, 2, 3]], Inr 3)"
proof -
  let ?re = "\<lparr>type = 5, region_id = 0, cause_code = 0\<rparr>"
  let ?re' = "\<lparr>type = 5, region_id = 1, cause_code = 0\<rparr>"
  let ?h = "create_dissector_handle dissect_AddGrpC_IntersectionState_addGrpC_PDU proto_addgrpc"
  obtain tbl where t: "regionid_subdissector_table 0 sample_regext_value = Some tbl"
    and a: "region_id ?re = 0 \<longrightarrow> type ?re = sample_regext_value Reg_IntersectionState \<longrightarrow>
        (\<exists>rest. fst (dissect_regextval_pdu sample_run tbl ?re [1, 2, 3]) =
           Call_dissector ?h [1, 2, 3] # rest)"
    and b: "type ?re' = sample_regext_value Reg_IntersectionState \<longrightarrow>
      tbl (regionid_key (region_id ?re') (type ?re')) = None \<longrightarrow>
        dissect_regextval_pdu sample_run tbl ?re' [1, 2, 3] =
          ([Call_data_dissector [1, 2, 3]], Inr (tvb_captured_length [1, 2, 3]))"
    and c: "(1 :: guint32) \<noteq> 0 \<longrightarrow> unat (1 :: guint32) < 2 ^ 16 \<longrightarrow> unat (0 :: guint32) < 2 ^ 16 \<longrightarrow>
      (\<forall>x. unat (sample_regext_value x) < 2 ^ 16) \<longrightarrow>
        tbl (regionid_key 1 (sample_regext_value Reg_IntersectionState)) = None"
    using intersection_state_handler_invoked [OF sample_regext_inj,
        where addGrpC = 0 and run = sample_run and tvb = "[1, 2, 3]" and r = 1
          and re = ?re and re' = ?re']
    by (elim exE conjE)
  have c': "tbl (regionid_key 1 5) = None"
    using c sample_regext_small by simp
  have a': "\<exists>rest. fst (dissect_regextval_pdu sample_run tbl ?re [1, 2, 3]) =
           Call_dissector ?h [1, 2, 3] # rest"
    using a by simp
  have b': "dissect_regextval_pdu sample_run tbl ?re' [1, 2, 3] =
          ([Call_data_dissector [1, 2, 3]], Inr 3)"
    using b c' by (simp add: tvb_captured_length_def)
  show ?thesis
    by (intro exI [of _ tbl] conjI t a' c' b')
qed

text \<open>
  Claim C8. The key that \<^verbatim>\<open>dissect_regextval_pdu\<close> looks up is the \<open>region_id\<close> of the
  private data shifted left by 16 bits plus its \<open>type\<close>, and nothing else: the handler
  bound to that key is the first and only handler called; with no handler under that key
  the data dissector alone runs; the result does not change with the other field of the
  private data or with the other entries of the table; and, the numbers being below
  \<open>2 ^ 16\<close>, a handler registered for one region identifier and extension kind is called
  exactly when both the recorded region identifier and the extension kind are those.
\<close>

theorem dissect_regextval_pdu_key:
  "(tbl (push_bit 16 (region_id re) + type re) = Some h \<longrightarrow>
      (\<exists>rest. fst (dissect_regextval_pdu run tbl re tvb) = Call_dissector h tvb # rest \<and>
              (\<forall>h' t. Call_dissector h' t \<notin> set rest))) \<and>
   (tbl (push_bit 16 (region_id re) + type re) = None \<longrightarrow>
      dissect_regextval_pdu run tbl re tvb =
        ([Call_data_dissector tvb], Inr (tvb_captured_length tvb))) \<and>
   (region_id re' = region_id re \<longrightarrow> type re' = type re \<longrightarrow>
    tbl' (push_bit 16 (region_id re) + type re) = tbl (push_bit 16 (region_id re) + type re) \<longrightarrow>
      dissect_regextval_pdu run tbl' re' tvb = dissect_regextval_pdu run tbl re tvb) \<and>
   (unat (region_id re) < 2 ^ 16 \<longrightarrow> unat (type re) < 2 ^ 16 \<longrightarrow>
    unat r < 2 ^ 16 \<longrightarrow> unat t < 2 ^ 16 \<longrightarrow>
      ((\<exists>rest. fst (dissect_regextval_pdu run [push_bit 16 r + t \<mapsto> h] re tvb) =
                Call_dissector h tvb # rest) \<longleftrightarrow>
       region_id re = r \<and> type re = t))"
proof -
  have k: "push_bit 16 x + y = regionid_key x y" for x y :: guint32
    by (simp add: regionid_key_def)
  have a: "\<exists>rest. fst (dissect_regextval_pdu run tbl re tvb) = Call_dissector h tvb # rest \<and>
              (\<forall>h' t. Call_dissector h' t \<notin> set rest)"
    if "tbl (push_bit 16 (region_id re) + type re) = Some h"
  proof -
    from that have "tbl (regionid_key (region_id re) (type re)) = Some h" by (simp only: k)
    then show ?thesis
      by (cases "run h tvb") (simp_all add: dissect_regextval_pdu_Some)
  qed
  have b: "dissect_regextval_pdu run tbl re tvb =
        ([Call_data_dissector tvb], Inr (tvb_captured_length tvb))"
    if "tbl (push_bit 16 (region_id re) + type re) = None"
  proof -
    from that have "tbl (regionid_key (region_id re) (type re)) = None" by (simp only: k)
    then show ?thesis by (rule dissect_regextval_pdu_None)
  qed
  have c: "dissect_regextval_pdu run tbl' re' tvb = dissect_regextval_pdu run tbl re tvb"
    if "region_id re' = region_id re" "type re' = type re"
      "tbl' (push_bit 16 (region_id re) + type re) = tbl (push_bit 16 (region_id re) + type re)"
    using that by (simp add: dissect_regextval_pdu_def dissector_try_uint_new_def regionid_key_def)
  have d: "(\<exists>rest. fst (dissect_regextval_pdu run [push_bit 16 r + t \<mapsto> h] re tvb) =
                Call_dissector h tvb # rest) \<longleftrightarrow>
       region_id re = r \<and> type re = t"
    if bounds: "unat (region_id re) < 2 ^ 16" "unat (type re) < 2 ^ 16"
      "unat r < 2 ^ 16" "unat t < 2 ^ 16"
  proof (cases "region_id re = r \<and> type re = t")
    case True
    then have "[regionid_key r t \<mapsto> h] (regionid_key (region_id re) (type re)) = Some h"
      by simp
    then have "\<exists>rest. fst (dissect_regextval_pdu run [regionid_key r t \<mapsto> h] re tvb) =
                Call_dissector h tvb # rest"
      by (cases "run h tvb") (simp_all add: dissect_regextval_pdu_Some)
    with True show ?thesis by (simp add: k)
  next
    case False
    then have "regionid_key (region_id re) (type re) \<noteq> regionid_key r t"
      using regionid_key_inj [OF bounds] by blast
    then have "[regionid_key r t \<mapsto> h] (regionid_key (region_id re) (type re)) = None"
      by simp
    then have "dissect_regextval_pdu run [regionid_key r t \<mapsto> h] re tvb =
        ([Call_data_dissector tvb], Inr (tvb_captured_length tvb))"
      by (rule dissect_regextval_pdu_None)
    then have "\<not> (\<exists>rest. fst (dissect_regextval_pdu run [regionid_key r t \<mapsto> h] re tvb) =
                Call_dissector h tvb # rest)"
      by simp
    with False show ?thesis by (simp add: k)
  qed
  show ?thesis
  proof (intro conjI impI)
    assume "tbl (push_bit 16 (region_id re) + type re) = Some h"
    then show "\<exists>rest. fst (dissect_regextval_pdu run tbl re tvb) = Call_dissector h tvb # rest \<and>
              (\<forall>h' t. Call_dissector h' t \<notin> set rest)"
      by (rule a)
  next
    assume "tbl (push_bit 16 (region_id re) + type re) = None"
    then show "dissect_regextval_pdu run tbl re tvb =
        ([Call_data_dissector tvb], Inr (tvb_captured_length tvb))"
      by (rule b)
  next
    assume "region_id re' = region_id re" "type re' = type re"
      "tbl' (push_bit 16 (region_id re) + type re) = tbl (push_bit 16 (region_id re) + type re)"
    then show "dissect_regextval_pdu run tbl' re' tvb = dissect_regextval_pdu run tbl re tvb"
      by (rule c)
  next
    assume "unat (region_id re) < 2 ^ 16" "unat (type re) < 2 ^ 16"
      "unat r < 2 ^ 16" "unat t < 2 ^ 16"
    then show "(\<exists>rest. fst (dissect_regextval_pdu run [push_bit 16 r + t \<mapsto> h] re tvb) =
                Call_dissector h tvb # rest) \<longleftrightarrow>
       region_id re = r \<and> type re = t"
      by (rule d)
  qed
qed

theorem dissect_regextval_pdu_key_witness:
  "\<exists>tbl. regionid_subdissector_table 3 sample_regext_value = Some tbl \<and>
     (\<exists>rest. fst (dissect_regextval_pdu sample_run tbl
                    \<lparr>type = 8, region_id = 3, cause_code = 0\<rparr> [1, 2, 3]) =
        Call_dissector (create_dissector_handle dissect_AddGrpC_MapData_addGrpC_PDU proto_addgrpc)
          [1, 2, 3] # rest \<and>
        (\<forall>h' t. Call_dissector h' t \<notin> set rest)) \<and>
     dissect_regextval_pdu sample_run tbl \<lparr>type = 8, region_id = 0, cause_code = 0\<rparr> [1, 2, 3] =
       ([Call_data_dissector [1, 2, 3]], Inr 3) \<and>
     dissect_regextval_pdu sample_run
       (tbl(7 \<mapsto> create_dissector_handle dissect_AddGrpC_Control_addGrpC_PDU proto_addgrpc))
       \<lparr>type = 8, region_id = 3, cause_code = 3\<rparr> [1, 2, 3] =
     dissect_regextval_pdu sample_run tbl \<lparr>type = 8, region_id = 3, cause_code = 0\<rparr> [1, 2, 3] \<and>
     \<not> (\<exists>rest. fst (dissect_regextval_pdu sample_run
                      [push_bit 16 3 + 8 \<mapsto>
                         create_dissector_handle dissect_AddGrpC_MapData_addGrpC_PDU proto_addgrpc]
                      \<lparr>type = 8, region_id = 2, cause_code = 0\<rparr> [1, 2, 3]) =
          Call_dissector
            (create_dissector_handle dissect_AddGrpC_MapData_addGrpC_PDU proto_addgrpc)
            [1, 2, 3] # rest)"
proof -
  let ?h = "create_dissector_handle dissect_AddGrpC_MapData_addGrpC_PDU proto_addgrpc"
  let ?c = "create_dissector_handle dissect_AddGrpC_Control_addGrpC_PDU proto_addgrpc"
  let ?re3 = "\<lparr>type = 8, region_id = 3, cause_code = 0\<rparr>"
  let ?re3' = "\<lparr>type = 8, region_id = 3, cause_code = 3\<rparr>"
  let ?re0 = "\<lparr>type = 8, region_id = 0, cause_code = 0\<rparr>"
  let ?re2 = "\<lparr>type = 8, region_id = 2, cause_code = 0\<rparr>"
  obtain tbl where t: "regionid_subdissector_table 3 sample_regext_value = Some tbl"
    and l: "\<And>k. tbl k = map_of (regionid_registrations 3 sample_regext_value) k"
    using regionid_table_lookup [OF sample_regext_inj, of 3] by blast
  have s3: "tbl (push_bit 16 (region_id ?re3) + type ?re3) = Some ?h"
    by (simp add: l regionid_registrations_def regionid_key_def)
  have s0: "tbl (push_bit 16 (region_id ?re0) + type ?re0) = None"
    by (simp add: l regionid_registrations_def regionid_key_def)
  have s7: "(tbl(7 \<mapsto> ?c)) (push_bit 16 (region_id ?re3) + type ?re3) =
            tbl (push_bit 16 (region_id ?re3) + type ?re3)"
    by simp
  have f: "region_id ?re3' = region_id ?re3" "type ?re3' = type ?re3" by simp_all
  have bd: "unat (region_id ?re2) < 2 ^ 16" "unat (type ?re2) < 2 ^ 16"
    "unat (3 :: guint32) < 2 ^ 16" "unat (8 :: guint32) < 2 ^ 16"
    by simp_all
  have ne: "\<not> (region_id ?re2 = 3 \<and> type ?re2 = 8)" by simp
  have len: "tvb_captured_length [1, 2, 3] = 3" by (simp add: tvb_captured_length_def)
  have a: "\<exists>rest. fst (dissect_regextval_pdu sample_run tbl ?re3 [1, 2, 3]) =
        Call_dissector ?h [1, 2, 3] # rest \<and> (\<forall>h' t. Call_dissector h' t \<notin> set rest)"
    using s3 dissect_regextval_pdu_key [where tbl = tbl and re = ?re3 and h = ?h
        and run = sample_run and tvb = "[1, 2, 3]"]
    by blast
  have b: "dissect_regextval_pdu sample_run tbl ?re0 [1, 2, 3] =
       ([Call_data_dissector [1, 2, 3]], Inr 3)"
    using s0 len dissect_regextval_pdu_key [where tbl = tbl and re = ?re0
        and run = sample_run and tvb = "[1, 2, 3]"]
    by metis
  have c: "dissect_regextval_pdu sample_run (tbl(7 \<mapsto> ?c)) ?re3' [1, 2, 3] =
     dissect_regextval_pdu sample_run tbl ?re3 [1, 2, 3]"
    using s7 f dissect_regextval_pdu_key [where tbl = tbl and tbl' = "tbl(7 \<mapsto> ?c)"
        and re = ?re3 and re' = ?re3' and run = sample_run and tvb = "[1, 2, 3]"]
    by blast
  have d: "\<not> (\<exists>rest. fst (dissect_regextval_pdu sample_run [push_bit 16 3 + 8 \<mapsto> ?h] ?re2
                      [1, 2, 3]) = Call_dissector ?h [1, 2, 3] # rest)"
    using bd ne dissect_regextval_pdu_key [where re = ?re2 and r = 3 and t = 8 and h = ?h
        and run = sample_run and tvb = "[1, 2, 3]"]
    by blast
  show ?thesis
    by (intro exI [of _ tbl] conjI t a b c d)
qed

text \<open>
  Claim C9. Every value that \<^verbatim>\<open>dissect_regextval_pdu\<close> returns is the captured length of
  its buffer, and it does return, with that value, whenever the handler it runs (if any)
  returns: after a handler that takes the bytes, after one that rejects them, and after
  the data dissector alone.
\<close>

theorem dissect_regextval_pdu_length:
  "(\<forall>evs n. dissect_regextval_pdu run tbl re tvb = (evs, Inr n) \<longrightarrow> n = tvb_captured_length tvb) \<and>
   ((\<forall>h e. tbl (regionid_key (region_id re) (type re)) = Some h \<longrightarrow> run h tvb \<noteq> Inl e) \<longrightarrow>
      snd (dissect_regextval_pdu run tbl re tvb) = Inr (tvb_captured_length tvb))"
proof (cases "tbl (regionid_key (region_id re) (type re))")
  case None
  then show ?thesis by (simp add: dissect_regextval_pdu_None)
next
  case (Some h)
  then show ?thesis by (cases "run h tvb") (auto simp: dissect_regextval_pdu_Some)
qed

theorem dissect_regextval_pdu_length_witness:
  "\<exists>tbl. regionid_subdissector_table 0 sample_regext_value = Some tbl \<and>
     snd (dissect_regextval_pdu sample_run tbl \<lparr>type = 5, region_id = 0, cause_code = 0\<rparr>
            [1, 2, 3]) = Inr 3 \<and>
     snd (dissect_regextval_pdu sample_run tbl \<lparr>type = 5, region_id = 1, cause_code = 0\<rparr>
            [1, 2, 3]) = Inr 3"
proof -
  obtain tbl where t: "regionid_subdissector_table 0 sample_regext_value = Some tbl"
    using regionid_table_lookup [OF sample_regext_inj, of 0] by blast
  have r: "\<forall>h e. tbl k = Some h \<longrightarrow> sample_run h [1, 2, 3] \<noteq> Inl e" for k
    by (simp add: sample_run_def)
  have "tvb_captured_length [1, 2, 3] = 3" by (simp add: tvb_captured_length_def)
  then show ?thesis
    using t r
      dissect_regextval_pdu_length [of sample_run tbl
        "\<lparr>type = 5, region_id = 0, cause_code = 0\<rparr>" "[1, 2, 3]"]
      dissect_regextval_pdu_length [of sample_run tbl
        "\<lparr>type = 5, region_id = 1, cause_code = 0\<rparr>" "[1, 2, 3]"]
    by simp
qed

text \<open>
  Claim C10, amended. The key is the region identifier times \<open>2 ^ 16\<close> plus the extension
  kind, modulo \<open>2 ^ 32\<close>. The map from pairs to keys is injective on pairs whose region
  identifier and extension kind are both below \<open>2 ^ 16\<close>; and when the enumerators have
  different values the eight registered keys are pairwise different.
\<close>

theorem regionid_key_injective:
  "unat (regionid_key r t) = (unat r * 2 ^ 16 + unat t) mod 2 ^ 32 \<and>
   (unat r1 < 2 ^ 16 \<longrightarrow> unat t1 < 2 ^ 16 \<longrightarrow> unat r2 < 2 ^ 16 \<longrightarrow> unat t2 < 2 ^ 16 \<longrightarrow>
      regionid_key r1 t1 = regionid_key r2 t2 \<longrightarrow> r1 = r2 \<and> t1 = t2) \<and>
   (inj rv \<longrightarrow> length (regionid_registrations addGrpC rv) = 8 \<and>
      distinct (map fst (regionid_registrations addGrpC rv)))"
  using regionid_key_unat_mod [of r t] regionid_key_inj [of r1 t1 r2 t2]
    regionid_keys_distinct [of rv addGrpC]
  by (simp add: regionid_registrations_def)

theorem regionid_key_injective_witness:
  "unat (regionid_key 3 5) = 196613 \<and>
   regionid_key 3 5 = regionid_key 3 5 \<and>
   regionid_key 1 5 \<noteq> regionid_key 0 5 \<and>
   distinct (map fst (regionid_registrations 0 sample_regext_value))"
proof -
  have b: "unat (3 :: guint32) < 2 ^ 16" "unat (5 :: guint32) < 2 ^ 16"
    "unat (1 :: guint32) < 2 ^ 16" "unat (0 :: guint32) < 2 ^ 16"
    by simp_all
  have n: "(1 :: guint32) \<noteq> 0" by simp
  show ?thesis
    using b n sample_regext_inj
      regionid_key_injective [of 3 5 3 5 3 5 sample_regext_value 0]
      regionid_key_injective [of 3 5 1 5 0 5 sample_regext_value 0]
    by auto
qed

text \<open>
  Claim C10 as stated fails: with the extension kind below \<open>2 ^ 16\<close> but the region
  identifier not, the shift drops the high bits, and the region identifiers \<open>0\<close> and
  \<open>65536\<close> give the same key.
\<close>

theorem regionid_key_collision:
  "regionid_key 0 0 = regionid_key 65536 0 \<and> (0 :: guint32) \<noteq> 65536 \<and>
   unat (0 :: guint32) < 2 ^ 16"
  by (simp add: regionid_key_def)

section \<open>Properties of the dispatch on the message identifier\<close>

lemma its_msgid_keys_distinct:
  "inj mid \<Longrightarrow> distinct (map fst (its_msgid_registrations mid))"
  by (simp add: its_msgid_registrations_def inj_eq)

lemma its_msgid_table_lookup:
  assumes "inj mid"
  shows "\<exists>reg. its_msgid_subdissector_table mid = Some reg \<and>
              (\<forall>k. reg k = map_of (its_msgid_registrations mid) k)"
proof -
  from dissector_add_uints_lookup [OF its_msgid_keys_distinct [OF assms], of Map.empty]
  obtain reg where "dissector_add_uints (its_msgid_registrations mid) Map.empty = Some reg"
    and "\<forall>k. reg k =
           (case map_of (its_msgid_registrations mid) k of None \<Rightarrow> None | Some h \<Rightarrow> Some h)"
    by auto
  then show ?thesis
    by (auto simp: its_msgid_subdissector_table_def split: option.splits)
qed

lemma etsi_msgid_inj: "inj etsi_msgid_value"
proof (rule injI)
  fix x y assume "etsi_msgid_value x = etsi_msgid_value y"
  then show "x = y" by (cases x; cases y; simp)
qed

lemma dispatch_found:
  "dec tvb = Some (version, kind, rest) \<Longrightarrow> effective_parser st kind = Some p \<Longrightarrow>
   dispatch dec run st tvb = ([Call_dissector p rest], run p rest)"
  by (simp add: dispatch_def)

lemma dispatch_not_found:
  "dec tvb = Some (version, kind, rest) \<Longrightarrow> effective_parser st kind = None \<Longrightarrow>
   dispatch dec run st tvb = ([Call_data_dissector rest], Inr (tvb_captured_length rest))"
  by (simp add: dispatch_def call_data_dissector_def)

lemma effective_parser_override:
  "override_store st kind = Some q \<Longrightarrow> effective_parser st kind = Some q"
  by (simp add: effective_parser_def get_override_def)

lemma effective_parser_static:
  "override_store st kind = None \<Longrightarrow> effective_parser st kind = message_registry st kind"
  by (simp add: effective_parser_def get_override_def)

text \<open>
  Claim C1. With the registry that \<^verbatim>\<open>proto_reg_handoff_its\<close> builds, a message whose header
  decodes to a registered kind is handed to the parser registered for that kind, and to
  no other, when the Override Store has no entry for the kind; when it has one, the
  message is handed to the override's parser instead.
\<close>

theorem dispatch_registered:
  assumes "inj mid"
  shows "\<exists>reg. its_msgid_subdissector_table mid = Some reg \<and>
     (dec tvb = Some (version, kind, rest) \<longrightarrow> (kind, p) \<in> set (its_msgid_registrations mid) \<longrightarrow>
        (ov kind = None \<longrightarrow>
           dispatch dec run \<lparr>override_store = ov, message_registry = reg\<rparr> tvb =
             ([Call_dissector p rest], run p rest)) \<and>
        (ov kind = Some q \<longrightarrow>
           dispatch dec run \<lparr>override_store = ov, message_registry = reg\<rparr> tvb =
             ([Call_dissector q rest], run q rest)))"
proof -
  obtain reg where t: "its_msgid_subdissector_table mid = Some reg"
    and l: "\<And>k. reg k = map_of (its_msgid_registrations mid) k"
    using its_msgid_table_lookup [OF assms] by blast
  let ?st = "\<lparr>override_store = ov, message_registry = reg\<rparr>"
  have a: "dispatch dec run ?st tvb = ([Call_dissector p rest], run p rest)"
    if "dec tvb = Some (version, kind, rest)" "(kind, p) \<in> set (its_msgid_registrations mid)"
      "ov kind = None"
  proof -
    have "reg kind = Some p"
      using that(2) l its_msgid_keys_distinct [OF assms] by simp
    with that(3) have "effective_parser ?st kind = Some p"
      by (simp add: effective_parser_static)
    with that(1) show ?thesis by (rule dispatch_found)
  qed
  have b: "dispatch dec run ?st tvb = ([Call_dissector q rest], run q rest)"
    if "dec tvb = Some (version, kind, rest)" "ov kind = Some q"
  proof -
    have "effective_parser ?st kind = Some q"
      using that(2) by (simp add: effective_parser_override)
    with that(1) show ?thesis by (rule dispatch_found)
  qed
  show ?thesis
    using t a b by (intro exI [of _ reg] conjI impI) simp_all
qed

theorem dispatch_registered_witness:
  "\<exists>reg. its_msgid_subdissector_table etsi_msgid_value = Some reg \<and>
     dispatch sample_header sample_run \<lparr>override_store = Map.empty, message_registry = reg\<rparr>
       [1, 1, 9, 9] =
       ([Call_dissector
           (create_dissector_handle
              dissect_denm_DecentralizedEnvironmentalNotificationMessage_PDU proto_its_denm)
           [9, 9]],
        Inr 2) \<and>
     dispatch sample_header sample_run
       \<lparr>override_store =
          [1 \<mapsto> create_dissector_handle dissect_cam_CoopAwareness_PDU proto_its_cam],
        message_registry = reg\<rparr>
       [1, 1, 9, 9] =
       ([Call_dissector (create_dissector_handle dissect_cam_CoopAwareness_PDU proto_its_cam)
           [9, 9]],
        Inr 2)"
proof -
  let ?denm = "create_dissector_handle
      dissect_denm_DecentralizedEnvironmentalNotificationMessage_PDU proto_its_denm"
  let ?cam = "create_dissector_handle dissect_cam_CoopAwareness_PDU proto_its_cam"
  have d: "sample_header [1, 1, 9, 9] = Some (1, 1, [9, 9])" by simp
  have m: "(1, ?denm) \<in> set (its_msgid_registrations etsi_msgid_value)"
    by (simp add: its_msgid_registrations_def)
  have r: "sample_run h [9, 9] = Inr 2" for h
    by (simp add: sample_run_def tvb_captured_length_def)
  show ?thesis
    using d m r
      dispatch_registered [OF etsi_msgid_inj, where dec = sample_header and run = sample_run
        and tvb = "[1, 1, 9, 9]" and version = 1 and kind = 1 and rest = "[9, 9]"
        and p = ?denm and ov = Map.empty and q = ?cam]
      dispatch_registered [OF etsi_msgid_inj, where dec = sample_header and run = sample_run
        and tvb = "[1, 1, 9, 9]" and version = 1 and kind = 1 and rest = "[9, 9]"
        and p = ?denm and ov = "[1 \<mapsto> ?cam]" and q = ?cam]
    by auto
qed

text \<open>
  Claim C5. A message whose header decodes to a kind with neither an override nor a
  registration ends in the data dissector on the remaining bytes: \<^verbatim>\<open>dissect_its_PDU\<close>
  returns normally, with the raw bytes as its only rendering after the ITS item.
\<close>

theorem dissect_its_PDU_unknown_kind:
  "dec tvb = Some (version, kind, rest) \<Longrightarrow>
   override_store st kind = None \<Longrightarrow> message_registry st kind = None \<Longrightarrow>
   dissect_its_PDU dec run st tvb =
     ([Col_set_str_protocol ''ITS'', Col_clear_info, Proto_tree_add_item proto_its,
       Proto_item_add_subtree, Call_data_dissector rest],
      Inr (tvb_captured_length rest))"
  by (simp add: dissect_its_PDU_def dispatch_not_found effective_parser_static)

theorem dissect_its_PDU_unknown_kind_witness:
  "\<exists>reg. its_msgid_subdissector_table etsi_msgid_value = Some reg \<and> reg 3 = None \<and>
     dissect_its_PDU sample_header sample_run
       \<lparr>override_store = Map.empty, message_registry = reg\<rparr> [1, 3, 9, 9] =
       ([Col_set_str_protocol ''ITS'', Col_clear_info, Proto_tree_add_item proto_its,
         Proto_item_add_subtree, Call_data_dissector [9, 9]],
        Inr 2)"
proof -
  obtain reg where t: "its_msgid_subdissector_table etsi_msgid_value = Some reg"
    and l: "\<And>k. reg k = map_of (its_msgid_registrations etsi_msgid_value) k"
    using its_msgid_table_lookup [OF etsi_msgid_inj] by blast
  have n: "reg 3 = None" by (simp add: l its_msgid_registrations_def)
  have d: "sample_header [1, 3, 9, 9] = Some (1, 3, [9, 9])" by simp
  have "dissect_its_PDU sample_header sample_run
       \<lparr>override_store = Map.empty, message_registry = reg\<rparr> [1, 3, 9, 9] =
       ([Col_set_str_protocol ''ITS'', Col_clear_info, Proto_tree_add_item proto_its,
         Proto_item_add_subtree, Call_data_dissector [9, 9]],
        Inr (tvb_captured_length [9, 9]))"
    using n d
      dissect_its_PDU_unknown_kind [where dec = sample_header and run = sample_run
        and st = "\<lparr>override_store = Map.empty, message_registry = reg\<rparr>"
        and tvb = "[1, 3, 9, 9]" and version = 1 and kind = 3 and rest = "[9, 9]"]
    by simp
  with t n show ?thesis by (simp add: tvb_captured_length_def)
qed

text \<open>
  Claim C7. Setting the same override twice is the same as setting it once, and the
  override is then the parser in effect. Clearing the override leaves the Message Registry
  as it was and makes its binding the parser in effect again, so that a message of that
  kind goes to the override's parser while the override is set and to the registered
  parser once it is cleared.
\<close>

theorem override_set_clear:
  "setOverride kind p (setOverride kind p st) = setOverride kind p st \<and>
   effective_parser (setOverride kind p st) kind = Some p \<and>
   message_registry (clearOverride kind (setOverride kind p st)) = message_registry st \<and>
   effective_parser (clearOverride kind (setOverride kind p st)) kind = message_registry st kind \<and>
   (dec tvb = Some (version, kind, rest) \<longrightarrow> message_registry st kind = Some p1 \<longrightarrow>
      dispatch dec run (setOverride kind p st) tvb = ([Call_dissector p rest], run p rest) \<and>
      dispatch dec run (clearOverride kind (setOverride kind p st)) tvb =
        ([Call_dissector p1 rest], run p1 rest))"
  by (simp add: setOverride_def clearOverride_def effective_parser_def get_override_def
      dispatch_def)

theorem override_set_clear_witness:
  "\<exists>reg. its_msgid_subdissector_table etsi_msgid_value = Some reg \<and>
     dispatch sample_header sample_run
       (setOverride 1 (create_dissector_handle dissect_cam_CoopAwareness_PDU proto_its_cam)
          \<lparr>override_store = Map.empty, message_registry = reg\<rparr>)
       [1, 1, 9, 9] =
       ([Call_dissector (create_dissector_handle dissect_cam_CoopAwareness_PDU proto_its_cam)
           [9, 9]],
        Inr 2) \<and>
     dispatch sample_header sample_run
       (clearOverride 1
          (setOverride 1 (create_dissector_handle dissect_cam_CoopAwareness_PDU proto_its_cam)
             \<lparr>override_store = Map.empty, message_registry = reg\<rparr>))
       [1, 1, 9, 9] =
       ([Call_dissector
           (create_dissector_handle
              dissect_denm_DecentralizedEnvironmentalNotificationMessage_PDU proto_its_denm)
           [9, 9]],
        Inr 2)"
proof -
  let ?denm = "create_dissector_handle
      dissect_denm_DecentralizedEnvironmentalNotificationMessage_PDU proto_its_denm"
  let ?cam = "create_dissector_handle dissect_cam_CoopAwareness_PDU proto_its_cam"
  obtain reg where t: "its_msgid_subdissector_table etsi_msgid_value = Some reg"
    and l: "\<And>k. reg k = map_of (its_msgid_registrations etsi_msgid_value) k"
    using its_msgid_table_lookup [OF etsi_msgid_inj] by blast
  have s: "message_registry \<lparr>override_store = Map.empty, message_registry = reg\<rparr> 1 = Some ?denm"
    by (simp add: l its_msgid_registrations_def)
  have d: "sample_header [1, 1, 9, 9] = Some (1, 1, [9, 9])" by simp
  have r: "sample_run h [9, 9] = Inr 2" for h
    by (simp add: sample_run_def tvb_captured_length_def)
  have "dispatch sample_header sample_run
          (setOverride 1 ?cam \<lparr>override_store = Map.empty, message_registry = reg\<rparr>)
          [1, 1, 9, 9] = ([Call_dissector ?cam [9, 9]], sample_run ?cam [9, 9]) \<and>
        dispatch sample_header sample_run
          (clearOverride 1
             (setOverride 1 ?cam \<lparr>override_store = Map.empty, message_registry = reg\<rparr>))
          [1, 1, 9, 9] = ([Call_dissector ?denm [9, 9]], sample_run ?denm [9, 9])"
    using s d
      override_set_clear [where dec = sample_header and run = sample_run
        and st = "\<lparr>override_store = Map.empty, message_registry = reg\<rparr>"
        and tvb = "[1, 1, 9, 9]" and version = 1 and kind = 1 and rest = "[9, 9]"
        and p = ?cam and ?p1.0 = ?denm]
    by blast
  with t r show ?thesis by auto
qed

end
